theory Spec2Isabelle
  imports Main
begin

section \<open>The worker side: public/sw.js\<close>

subsection \<open>Requests, responses and the platform's cache storage\<close>

text \<open>
  The worker script talks to three platform objects: \<^verbatim>\<open>caches\<close> (the cache storage of
  the origin), a \<^verbatim>\<open>cache\<close> opened from it, and \<^verbatim>\<open>fetch\<close>.

  \<^item> A request is its method and its URL; a URL string handed to \<^verbatim>\<open>caches.match\<close> or
    \<^verbatim>\<open>cache.addAll\<close> denotes the GET request for that URL.
  \<^item> A response is a snapshot of its status, of whether its \<^verbatim>\<open>Vary\<close> header holds \<^verbatim>\<open>*\<close>, and of
    its body. \<^verbatim>\<open>response.clone()\<close> yields an equal value.
  \<^item> A cache is an association list from requests to responses.
  \<^item> The cache storage is the list of the named caches in the order of their creation:
    \<^verbatim>\<open>caches.keys()\<close> lists the names in that order and \<^verbatim>\<open>caches.match\<close> asks each cache in
    that order and answers with the first hit.
  \<^item> The network is a partial function: \<open>None\<close> is a \<^verbatim>\<open>fetch\<close> whose promise rejects.
\<close>

record request =
  req_method :: string
  req_url :: string

definition GET :: "string \<Rightarrow> request" where
  "GET u = \<lparr>req_method = ''GET'', req_url = u\<rparr>"

record response =
  status :: nat
  vary_star :: bool
  body :: string

type_synonym cache = "(request \<times> response) list"

type_synonym cache_storage = "(string \<times> cache) list"

type_synonym network = "request \<Rightarrow> response option"

text \<open>
  The scheme of an absolute URL; a relative reference has none and is resolved against
  the location of the worker, which is served over http or https.
\<close>

fun scheme_from :: "string \<Rightarrow> string \<Rightarrow> string option" where
  "scheme_from acc [] = None"
| "scheme_from acc (c # cs) =
     (if c = CHR '':'' then Some (rev acc)
      else if c = CHR ''/'' \<or> c = CHR ''?'' \<or> c = CHR ''#'' then None
      else scheme_from (c # acc) cs)"

definition url_scheme_ok :: "string \<Rightarrow> bool" where
  "url_scheme_ok u =
     (case scheme_from [] u of None \<Rightarrow> True | Some s \<Rightarrow> s = ''http'' \<or> s = ''https'')"

text \<open>
  The platform's admission checks. \<^verbatim>\<open>cache.put\<close> rejects, and stores nothing, unless the
  request is a GET request over http or https and the response is neither a partial
  response (status 206) nor one whose \<^verbatim>\<open>Vary\<close> header holds \<^verbatim>\<open>*\<close>. \<^verbatim>\<open>cache.addAll\<close> asks the
  same of every response and also that its status is in the range 200 to 299.
\<close>

definition put_admits :: "request \<Rightarrow> response \<Rightarrow> bool" where
  "put_admits req resp =
     (req_method req = ''GET'' \<and> url_scheme_ok (req_url req)
      \<and> status resp \<noteq> 206 \<and> \<not> vary_star resp)"

definition addAll_admits :: "response \<Rightarrow> bool" where
  "addAll_admits resp =
     (200 \<le> status resp \<and> status resp \<le> 299 \<and> status resp \<noteq> 206 \<and> \<not> vary_star resp)"

text \<open>A lookup finds nothing for a request that is not a GET request.\<close>

definition cache_match :: "cache \<Rightarrow> request \<Rightarrow> response option" where
  "cache_match c req = (if req_method req = ''GET'' then map_of c req else None)"

text \<open>The write of an admitted pair replaces the entry of the request.\<close>

definition cache_put :: "cache \<Rightarrow> request \<Rightarrow> response \<Rightarrow> cache" where
  "cache_put c req resp = filter (\<lambda>e. fst e \<noteq> req) c @ [(req, resp)]"

definition caches_keys :: "cache_storage \<Rightarrow> string list" where
  "caches_keys st = map fst st"

definition caches_has :: "cache_storage \<Rightarrow> string \<Rightarrow> bool" where
  "caches_has st name = (name \<in> set (caches_keys st))"

text \<open>\<^verbatim>\<open>caches.open(name)\<close> creates the cache when it does not exist yet.\<close>

definition caches_open :: "string \<Rightarrow> cache_storage \<Rightarrow> cache_storage" where
  "caches_open name st = (if caches_has st name then st else st @ [(name, [])])"

definition caches_delete :: "string \<Rightarrow> cache_storage \<Rightarrow> cache_storage" where
  "caches_delete name st = filter (\<lambda>e. fst e \<noteq> name) st"

text \<open>The cache store of one generation, if it exists.\<close>

definition cache_of :: "cache_storage \<Rightarrow> string \<Rightarrow> cache option" where
  "cache_of st name = map_of st name"

text \<open>The write of an admitted pair into the cache opened under \<open>name\<close>.\<close>

definition storage_put :: "string \<Rightarrow> request \<Rightarrow> response \<Rightarrow> cache_storage \<Rightarrow> cache_storage" where
  "storage_put name req resp st =
     map (\<lambda>e. if fst e = name then (fst e, cache_put (snd e) req resp) else e) st"

fun caches_match :: "cache_storage \<Rightarrow> request \<Rightarrow> response option" where
  "caches_match [] req = None"
| "caches_match (e # st) req =
     (case cache_match (snd e) req of
        Some resp \<Rightarrow> Some resp
      | None \<Rightarrow> caches_match st req)"

subsection \<open>Module constants\<close>

definition cacheName :: string where
  "cacheName = ''v0.0.0''"

definition cacheKeepList :: "string list" where
  "cacheKeepList = [cacheName]"

definition defaultResponseURL :: string where
  "defaultResponseURL = ''/offline.html''"

definition preCacheURLs :: "string list" where
  "preCacheURLs = [defaultResponseURL]"

subsection \<open>The activate listener\<close>

text \<open>
  \<^verbatim>\<open>Array.prototype.indexOf\<close>: the first position of the element, \<open>-1\<close> when it does not
  occur.
\<close>

fun indexOf :: "'a list \<Rightarrow> 'a \<Rightarrow> int" where
  "indexOf [] x = - 1"
| "indexOf (y # ys) x =
     (if y = x then 0 else (let i = indexOf ys x in if i = - 1 then - 1 else i + 1))"

text \<open>
  The listener takes the list of keys once and deletes every cache whose name is not found
  in the keep list. \<open>activate_with\<close> is the listener's body over a keep list; the script
  runs it on \<open>cacheKeepList\<close>.
\<close>

definition activate_with :: "string list \<Rightarrow> cache_storage \<Rightarrow> cache_storage" where
  "activate_with keep st =
     fold (\<lambda>key s. if indexOf keep key = - 1 then caches_delete key s else s)
       (caches_keys st) st"

definition activate :: "cache_storage \<Rightarrow> cache_storage" where
  "activate st = activate_with cacheKeepList st"

subsection \<open>The install listener\<close>

text \<open>
  \<^verbatim>\<open>cache.addAll(urls)\<close> fetches the GET request of every URL and stores the responses only
  when every URL has an admitted scheme, every fetch came back with an admitted response
  and no URL occurs twice. Otherwise the call rejects and nothing is stored.
\<close>

fun fetch_all :: "network \<Rightarrow> string list \<Rightarrow> response list option" where
  "fetch_all net [] = Some []"
| "fetch_all net (u # us) =
     (case net (GET u) of
        None \<Rightarrow> None
      | Some r \<Rightarrow>
          (if addAll_admits r
           then (case fetch_all net us of None \<Rightarrow> None | Some rs \<Rightarrow> Some (r # rs))
           else None))"

definition cache_addAll ::
  "network \<Rightarrow> string \<Rightarrow> string list \<Rightarrow> cache_storage \<Rightarrow> cache_storage option" where
  "cache_addAll net name urls st =
     (if list_all url_scheme_ok urls \<and> distinct urls
      then (case fetch_all net urls of
              None \<Rightarrow> None
            | Some rs \<Rightarrow>
                Some (fold (\<lambda>e s. storage_put name (GET (fst e)) (snd e) s) (zip urls rs) st))
      else None)"

text \<open>What \<^verbatim>\<open>addAll\<close> asks of one URL: an admitted scheme and a fetch that comes back admitted.\<close>

definition precached_ok :: "network \<Rightarrow> string \<Rightarrow> bool" where
  "precached_ok net u =
     (url_scheme_ok u \<and> (case net (GET u) of None \<Rightarrow> False | Some r \<Rightarrow> addAll_admits r))"

datatype install_outcome = InstallOk | InstallFailed

text \<open>
  The promise handed to \<^verbatim>\<open>event.waitUntil\<close>: open the cache of the current generation, then
  \<^verbatim>\<open>addAll\<close>. A rejection fails the install phase; the cache opened before stays.
  \<open>install_with\<close> is the listener's body over a URL list; the script runs it on
  \<open>preCacheURLs\<close>.
\<close>

definition install_with ::
  "string list \<Rightarrow> network \<Rightarrow> cache_storage \<Rightarrow> install_outcome \<times> cache_storage" where
  "install_with urls net st =
     (let st1 = caches_open cacheName st in
      case cache_addAll net cacheName urls st1 of
        None \<Rightarrow> (InstallFailed, st1)
      | Some st2 \<Rightarrow> (InstallOk, st2))"

definition install :: "network \<Rightarrow> cache_storage \<Rightarrow> install_outcome \<times> cache_storage" where
  "install net st = install_with preCacheURLs net st"

subsection \<open>The fetch listener\<close>

text \<open>
  What \<^verbatim>\<open>event.respondWith\<close> receives: a response, or \<^verbatim>\<open>undefined\<close> (the fallback lookup
  found nothing), which the platform turns into a failed fetch for the caller.
\<close>

datatype fetch_outcome = Responded response | FetchFailed

text \<open>
  One run of the listener: what the caller gets, the network requests made on the way, and
  the write into the cache that the listener starts without waiting for it.
\<close>

record interception =
  outcome :: fetch_outcome
  network_requests :: "request list"
  pending_put :: "(request \<times> response) option"

definition fetch_listener :: "network \<Rightarrow> cache_storage \<Rightarrow> request \<Rightarrow> interception" where
  "fetch_listener net st req =
     (case caches_match st req of
        Some resp \<Rightarrow> \<lparr>outcome = Responded resp, network_requests = [], pending_put = None\<rparr>
      | None \<Rightarrow>
          (case net req of
             Some response \<Rightarrow>
               \<lparr>outcome = Responded response, network_requests = [req],
                pending_put = Some (req, response)\<rparr>
           | None \<Rightarrow>
               (case caches_match st (GET defaultResponseURL) of
                  Some fallback \<Rightarrow>
                    \<lparr>outcome = Responded fallback, network_requests = [req], pending_put = None\<rparr>
                | None \<Rightarrow>
                    \<lparr>outcome = FetchFailed, network_requests = [req], pending_put = None\<rparr>)))"

text \<open>
  The write started on a miss: \<^verbatim>\<open>caches.open(cacheName)\<close>, then \<^verbatim>\<open>cache.put\<close> of the clone
  under the request. When the platform does not admit the pair, \<^verbatim>\<open>put\<close> rejects, nothing
  handles the rejection and the cache opened before stays as it is.
\<close>

definition settle_put :: "(request \<times> response) option \<Rightarrow> cache_storage \<Rightarrow> cache_storage" where
  "settle_put p st =
     (case p of
        None \<Rightarrow> st
      | Some e \<Rightarrow>
          (let st1 = caches_open cacheName st in
           if put_admits (fst e) (snd e) then storage_put cacheName (fst e) (snd e) st1
           else st1))"

text \<open>
  One interception, with the write it started settled before the next event is handled
  (the worker handles events one at a time; the write is not awaited by the listener).
\<close>

definition intercept ::
  "network \<Rightarrow> cache_storage \<Rightarrow> request \<Rightarrow> interception \<times> cache_storage" where
  "intercept net st req =
     (let i = fetch_listener net st req in (i, settle_put (pending_put i) st))"

fun intercepts :: "(network \<times> request) list \<Rightarrow> cache_storage \<Rightarrow> cache_storage" where
  "intercepts [] st = st"
| "intercepts (e # es) st = intercepts es (snd (intercept (fst e) st (snd e)))"

text \<open>
  The cache storages the fetch listener can see: fetch events reach a worker after its
  install and activate phases have completed; from then on the storage changes by the
  listener's own writes, and by caches that other code of the origin creates under names
  not yet in use (the install phase of a later generation of the worker).
\<close>

inductive serving :: "cache_storage \<Rightarrow> bool" where
  activated: "install net st0 = (InstallOk, st1) \<Longrightarrow> serving (activate st1)"
| intercepted: "serving st \<Longrightarrow> serving (snd (intercept net st req))"
| generation_added: "serving st \<Longrightarrow> \<not> caches_has st name \<Longrightarrow> serving (st @ [(name, c)])"

code_pred serving .

subsection \<open>The message listener\<close>

text \<open>
  The listener reads \<^verbatim>\<open>event.data.action\<close>: the data of a message is absent or an object with
  fields. The result says whether \<^verbatim>\<open>self.skipWaiting()\<close> is called.
\<close>

datatype js_error = Error string | TypeError string | ReferenceError string

definition message_listener :: "(string \<times> string) list option \<Rightarrow> js_error + bool" where
  "message_listener data =
     (case data of
        None \<Rightarrow> Inl (TypeError ''Cannot read properties of undefined (reading action)'')
      | Some props \<Rightarrow> Inr (map_of props ''action'' = Some ''skipWaiting''))"

section \<open>The page side: serviceWorkerManager.js and the PWA manager\<close>

subsection \<open>What the page code does to its environment\<close>

text \<open>
  Event objects, worker objects, registrations and UI elements are handles. The calls the
  page code makes on the platform and on the host are recorded as a list of effects, in
  the order of the calls. What a host callback does when it is called is an input of the
  listener that calls it: \<open>None\<close> when the callback returns, the error when it throws.
  Every listener is modelled as the function the source registers, under the event type
  the source names (\<^verbatim>\<open>beforeInstallPrompt\<close>, \<^verbatim>\<open>appInstalled\<close>, \<^verbatim>\<open>controllerChange\<close>; the platform
  names its own signals in lower case). Whether and when the platform dispatches an event
  of that type is outside the model: a listener is studied as a function of the event it
  is called with.
\<close>

type_synonym event = nat
type_synonym worker = nat
type_synonym registration = nat
type_synonym element = nat

datatype worker_state = Parsed | Installing | Installed | Activating | Activated | Redundant

datatype target =
    Window
  | ServiceWorkerContainer
  | Registration registration
  | Worker worker
  | Element element

datatype effect =
    Register string string
  | AddEventListener target string
  | PostMessage worker "(string \<times> string) list"
  | DispatchEvent target string
  | ConsoleLog string
  | ConsoleError string
  | PreventDefault event
  | Prompt event
  | Reload
  | HostBeforeInstallPrompt event
  | HostAppInstalled event
  | HostControllerChange event

text \<open>
  The environment of the page: whether \<^verbatim>\<open>'serviceWorker' in navigator\<close> holds, the current
  \<^verbatim>\<open>navigator.serviceWorker.controller\<close>, the \<^verbatim>\<open>installing\<close> worker of the registration, the
  \<^verbatim>\<open>state\<close> of each worker object, and what the identifier \<^verbatim>\<open>updateButton\<close> resolves to in
  the global scope (\<open>None\<close>: it is not declared).
\<close>

record page_env =
  serviceWorker_in_navigator :: bool
  controller :: "worker option"
  installing :: "worker option"
  state_of :: "worker \<Rightarrow> worker_state"
  global_updateButton :: "element option"

subsection \<open>ServiceWorkerManager\<close>

record sw_manager =
  sw :: "registration option"
  newSw :: "worker option"
  filePath :: string
  options :: "(string \<times> string) list"

definition ServiceWorkerManager_new :: "string \<Rightarrow> (string \<times> string) list \<Rightarrow> sw_manager" where
  "ServiceWorkerManager_new path opts = \<lparr>sw = None, newSw = None, filePath = path, options = opts\<rparr>"

text \<open>
  \<^verbatim>\<open>init()\<close> up to the call of \<^verbatim>\<open>register\<close>, whose options are \<^verbatim>\<open>{scope: "/", ...this.options}\<close>.
  The two continuations of the promise follow.
\<close>

definition swm_init :: "page_env \<Rightarrow> sw_manager \<Rightarrow> effect list" where
  "swm_init env m =
     (if serviceWorker_in_navigator env
      then [Register (filePath m)
              (case map_of (options m) ''scope'' of Some s \<Rightarrow> s | None \<Rightarrow> ''/'')]
      else [])"

definition registration_resolved ::
  "registration \<Rightarrow> string \<Rightarrow> sw_manager \<Rightarrow> sw_manager \<times> effect list" where
  "registration_resolved reg reg_scope m =
     (m\<lparr>sw := Some reg\<rparr>,
      [AddEventListener (Registration reg) ''updatefound'',
       ConsoleLog (''%c[ServiceWorker] %cregistration successful with scope: %c'' @ reg_scope)])"

definition registration_rejected :: "string \<Rightarrow> effect list" where
  "registration_rejected err =
     [ConsoleLog ''%c[ServiceWorker] %cregistration failed'', ConsoleError err]"







subsection \<open>PWAManager\<close>

text \<open>
  A value the host passes for a button: an element handle, \<^verbatim>\<open>null\<close>, \<^verbatim>\<open>undefined\<close> (the
  option is left out) or anything else, named by a description.
\<close>

datatype js_value = Undefined | Null | HTMLElement element | NotElement string

record pwa_options =
  opt_serviceWorkerPath :: "string option"
  opt_installButton :: js_value
  opt_updateButton :: js_value

record pwa_manager =
  serviceWorkerPath :: string
  deferredPrompt :: "event option"
  refreshing :: bool
  installButton :: "element option"
  updateButton :: "element option"
  swManager :: "sw_manager option"

text \<open>A destructuring default replaces \<^verbatim>\<open>undefined\<close> only.\<close>

definition button_default :: "js_value \<Rightarrow> js_value" where
  "button_default v = (case v of Undefined \<Rightarrow> Null | _ \<Rightarrow> v)"

definition instanceof_HTMLElement :: "js_value \<Rightarrow> bool" where
  "instanceof_HTMLElement v = (case v of HTMLElement e \<Rightarrow> True | _ \<Rightarrow> False)"

definition element_of :: "js_value \<Rightarrow> element option" where
  "element_of v = (case v of HTMLElement e \<Rightarrow> Some e | _ \<Rightarrow> None)"

text \<open>What the two checks of the constructor refuse: a value that is neither \<^verbatim>\<open>null\<close> nor an element.\<close>

definition rejected_button :: "js_value \<Rightarrow> bool" where
  "rejected_button v = (case v of NotElement d \<Rightarrow> True | _ \<Rightarrow> False)"

text \<open>
  The constructor destructures its one parameter, which has no default: called without an
  options object (\<open>None\<close>), it throws a \<^verbatim>\<open>TypeError\<close> before its body runs.
\<close>

definition PWAManager_new :: "page_env \<Rightarrow> pwa_options option \<Rightarrow> js_error + pwa_manager" where
  "PWAManager_new env arg =
     (case arg of
        None \<Rightarrow> Inl (TypeError ''Cannot destructure property serviceWorkerPath of undefined'')
      | Some opts \<Rightarrow>
          (let ib = button_default (opt_installButton opts);
               ub = button_default (opt_updateButton opts)
           in if ib \<noteq> Null \<and> \<not> instanceof_HTMLElement ib
              then Inl (Error ''installButton must be an HTMLElement'')
              else if ub \<noteq> Null \<and> \<not> instanceof_HTMLElement ub
              then Inl (Error ''updateButton must be an HTMLElement'')
              else if \<not> serviceWorker_in_navigator env
              then Inl (Error ''ServiceWorker is not supported in this browser'')
              else Inr \<lparr>serviceWorkerPath =
                          (case opt_serviceWorkerPath opts of None \<Rightarrow> ''./sw.js'' | Some p \<Rightarrow> p),
                        deferredPrompt = None, refreshing = False,
                        installButton = element_of ib, updateButton = element_of ub,
                        swManager = None\<rparr>))"

text \<open>
  \<^verbatim>\<open>init()\<close>: create and start the \<^verbatim>\<open>ServiceWorkerManager\<close>, then register the listeners of
  \<^verbatim>\<open>load\<close>, \<^verbatim>\<open>controllerChange\<close> and \<^verbatim>\<open>updatefound\<close>.
\<close>

definition PWAManager_init :: "page_env \<Rightarrow> pwa_manager \<Rightarrow> js_error + pwa_manager \<times> effect list" where
  "PWAManager_init env pm =
     (if serviceWorker_in_navigator env
      then (let m = ServiceWorkerManager_new (serviceWorkerPath pm) [] in
            Inr (pm\<lparr>swManager := Some m\<rparr>,
                 swm_init env m @
                 [AddEventListener Window ''load'',
                  AddEventListener ServiceWorkerContainer ''controllerChange'',
                  AddEventListener Window ''updatefound'']))
      else Inl (Error ''ServiceWorker is not supported in this browser''))"

text \<open>
  The use the class documents: \<^verbatim>\<open>new PWAManager(options)\<close>, then \<^verbatim>\<open>init()\<close> on the instance.
  The result is the error thrown to the host, if any, and the effects so far.
\<close>

definition PWAManager_start :: "page_env \<Rightarrow> pwa_options option \<Rightarrow> js_error option \<times> effect list" where
  "PWAManager_start env arg =
     (case PWAManager_new env arg of
        Inl e \<Rightarrow> (Some e, [])
      | Inr pm \<Rightarrow>
          (case PWAManager_init env pm of
             Inl e \<Rightarrow> (Some e, [])
           | Inr r \<Rightarrow> (None, snd r)))"

text \<open>
  The \<^verbatim>\<open>load\<close> listener registers four listeners in turn. The third registration is guarded
  by \<^verbatim>\<open>this.updateButton\<close> and made on the identifier \<^verbatim>\<open>updateButton\<close>, which is not a
  variable of \<^verbatim>\<open>init\<close>: it is looked up in the global scope. The result is the error that
  ends the listener, if any, and the listeners registered until then.
\<close>

definition load_listener :: "page_env \<Rightarrow> pwa_manager \<Rightarrow> js_error option \<times> effect list" where
  "load_listener env pm =
     (let first =
            AddEventListener Window ''beforeInstallPrompt'' #
            (case installButton pm of
               None \<Rightarrow> []
             | Some b \<Rightarrow> [AddEventListener (Element b) ''click''])
      in case updateButton pm of
           None \<Rightarrow> (None, first @ [AddEventListener Window ''appInstalled''])
         | Some u \<Rightarrow>
             (case global_updateButton env of
                None \<Rightarrow> (Some (ReferenceError ''updateButton is not defined''), first)
              | Some g \<Rightarrow>
                  (None, first @ [AddEventListener (Element g) ''click'',
                                  AddEventListener Window ''appInstalled''])))"

text \<open>
  The listeners that call the host take what the host's callback does as \<open>host\<close>. Each
  results in the manager after the listener, the effects, and the error that ended the
  listener, if any. \<^verbatim>\<open>beforeInstallPrompt\<close>: prevent the default, store the event, call the
  host, log.
\<close>

definition beforeInstallPrompt_listener ::
  "event \<Rightarrow> js_error option \<Rightarrow> pwa_manager \<Rightarrow> pwa_manager \<times> effect list \<times> js_error option" where
  "beforeInstallPrompt_listener e host pm =
     (pm\<lparr>deferredPrompt := Some e\<rparr>,
      [PreventDefault e, HostBeforeInstallPrompt e] @
        (if host = None then [ConsoleLog ''Prompted user to install''] else []),
      host)"

text \<open>
  The click listener of the install button, run to its end (\<open>choice\<close> is the outcome the
  user's choice resolves to). It calls \<^verbatim>\<open>this.deferredPrompt.prompt()\<close> without looking at
  \<^verbatim>\<open>this.deferredPrompt\<close> first; nothing in the listener catches what that raises.
\<close>

definition installButton_click :: "string \<Rightarrow> pwa_manager \<Rightarrow> (js_error + effect list) \<times> pwa_manager" where
  "installButton_click choice pm =
     (case deferredPrompt pm of
        None \<Rightarrow> (Inl (TypeError ''Cannot read properties of null (reading prompt)''), pm)
      | Some e \<Rightarrow>
          (Inr [Prompt e, ConsoleLog (''User response to the install prompt: '' @ choice)],
           pm\<lparr>deferredPrompt := None\<rparr>))"

definition updateButton_click :: "effect list" where
  "updateButton_click = [Reload]"

text \<open>\<^verbatim>\<open>appInstalled\<close>: call the host, then clear the stored prompt and log.\<close>

definition appInstalled_listener ::
  "event \<Rightarrow> js_error option \<Rightarrow> pwa_manager \<Rightarrow> pwa_manager \<times> effect list \<times> js_error option" where
  "appInstalled_listener e host pm =
     (if host = None
      then (pm\<lparr>deferredPrompt := None\<rparr>, [HostAppInstalled e, ConsoleLog ''PWA was installed''], None)
      else (pm, [HostAppInstalled e], host))"

text \<open>
  \<^verbatim>\<open>controllerChange\<close>: return when the flag is set; else call the host and, when the call
  has returned, set the flag.
\<close>

definition controllerChange_listener ::
  "event \<Rightarrow> js_error option \<Rightarrow> pwa_manager \<Rightarrow> pwa_manager \<times> effect list \<times> js_error option" where
  "controllerChange_listener e host pm =
     (if refreshing pm then (pm, [], None)
      else if host = None then (pm\<lparr>refreshing := True\<rparr>, [HostControllerChange e], None)
      else (pm, [HostControllerChange e], host))"

text \<open>
  The signal dispatched once for each entry of a list, in order; an entry is the event
  and what the host's callback does if it is called for it. The result is the manager at
  the end and the calls of the host's callback that were made.
\<close>

fun controllerChange_dispatches ::
  "(event \<times> js_error option) list \<Rightarrow> pwa_manager \<Rightarrow> pwa_manager \<times> effect list" where
  "controllerChange_dispatches [] pm = (pm, [])"
| "controllerChange_dispatches (d # ds) pm =
     (let r1 = controllerChange_listener (fst d) (snd d) pm;
          r2 = controllerChange_dispatches ds (fst r1)
      in (fst r2, fst (snd r1) @ snd r2))"

section \<open>Sample environments\<close>

definition offline_page :: response where
  "offline_page = \<lparr>status = 200, vary_star = False, body = ''offline''\<rparr>"

definition not_found_page :: response where
  "not_found_page = \<lparr>status = 404, vary_star = False, body = ''not found''\<rparr>"

definition partial_content :: response where
  "partial_content = \<lparr>status = 206, vary_star = False, body = ''bytes 0-99''\<rparr>"

definition created_answer :: response where
  "created_answer = \<lparr>status = 201, vary_star = False, body = ''created''\<rparr>"

definition post_request :: request where
  "post_request = \<lparr>req_method = ''POST'', req_url = ''/api/items''\<rparr>"

definition sample_network :: network where
  "sample_network q =
     (if q = GET defaultResponseURL then Some offline_page
      else if q = GET ''/missing.css'' then Some not_found_page
      else if q = GET ''/video.mp4'' then Some partial_content
      else if q = post_request then Some created_answer
      else None)"

definition no_network :: network where
  "no_network q = None"

definition served_storage :: cache_storage where
  "served_storage = [(cacheName, [(GET defaultResponseURL, offline_page)])]"

definition sample_storage :: cache_storage where
  "sample_storage =
     [(''v-old'', [(GET ''/app.js'', not_found_page)]),
      (cacheName, [(GET defaultResponseURL, offline_page)])]"

definition sample_env :: page_env where
  "sample_env =
     \<lparr>serviceWorker_in_navigator = True, controller = Some 1, installing = Some 2,
      state_of = (\<lambda>w. if w = 2 then Installed else Activated),
      global_updateButton = None\<rparr>"


definition sample_options :: pwa_options where
  "sample_options =
     \<lparr>opt_serviceWorkerPath = Some ''./sw.js'', opt_installButton = HTMLElement 1,
      opt_updateButton = HTMLElement 2\<rparr>"

definition sample_manager :: pwa_manager where
  "sample_manager =
     \<lparr>serviceWorkerPath = ''./sw.js'', deferredPrompt = None, refreshing = False,
      installButton = Some 1, updateButton = Some 2, swManager = None\<rparr>"

section \<open>Properties of the worker side\<close>

lemma indexOf_nonneg_or_absent: "indexOf ys x = - 1 \<or> 0 \<le> indexOf ys x"
  by (induction ys) (auto simp: Let_def)

lemma indexOf_absent_iff: "indexOf ys x = - 1 \<longleftrightarrow> x \<notin> set ys"
proof (induction ys)
  case Nil
  show ?case by simp
next
  case (Cons y ys)
  have "0 \<le> indexOf ys x \<Longrightarrow> indexOf ys x + 1 \<noteq> - 1" by arith
  with Cons indexOf_nonneg_or_absent [of ys x] show ?case
    by (auto simp: Let_def)
qed

lemma fold_delete_filter:
  "fold (\<lambda>key s. if indexOf keep key = - 1 then caches_delete key s else s) ks st =
   filter (\<lambda>e. fst e \<in> set keep \<or> fst e \<notin> set ks) st"
proof (induction ks arbitrary: st)
  case Nil
  show ?case by simp
next
  case (Cons k ks)
  let ?f = "\<lambda>key s. if indexOf keep key = - 1 then caches_delete key s else s"
  show ?case
  proof (cases "k \<in> set keep")
    case True
    then have "fold ?f (k # ks) st = fold ?f ks st"
      by (simp add: indexOf_absent_iff)
    also have "\<dots> = filter (\<lambda>e. fst e \<in> set keep \<or> fst e \<notin> set ks) st"
      by (rule Cons.IH)
    also from True have "\<dots> = filter (\<lambda>e. fst e \<in> set keep \<or> fst e \<notin> set (k # ks)) st"
      by (intro filter_cong) auto
    finally show ?thesis .
  next
    case False
    then have "fold ?f (k # ks) st = fold ?f ks (filter (\<lambda>e. fst e \<noteq> k) st)"
      by (simp add: indexOf_absent_iff caches_delete_def)
    also have "\<dots> = filter (\<lambda>e. fst e \<in> set keep \<or> fst e \<notin> set ks)
                        (filter (\<lambda>e. fst e \<noteq> k) st)"
      by (rule Cons.IH)
    also from False have "\<dots> = filter (\<lambda>e. fst e \<in> set keep \<or> fst e \<notin> set (k # ks)) st"
      unfolding filter_filter by (intro filter_cong) auto
    finally show ?thesis .
  qed
qed

lemma activate_with_filter:
  "activate_with keep st = filter (\<lambda>e. fst e \<in> set keep) st"
proof -
  have "filter (\<lambda>e. fst e \<in> set keep \<or> fst e \<notin> set (map fst st)) st =
        filter (\<lambda>e. fst e \<in> set keep) st"
    by (rule filter_cong) auto
  then show ?thesis
    by (simp add: activate_with_def caches_keys_def fold_delete_filter)
qed

lemma map_of_filter_keys:
  "map_of (filter (\<lambda>e. fst e \<in> K) st) k = (if k \<in> K then map_of st k else None)"
  by (induction st) auto

subsection \<open>The activate phase\<close>

text \<open>
  C2. Whatever caches exist, after the activate listener has run no cache whose name is
  outside the keep list is left (its name is not listed any more and it cannot be opened
  for a lookup), and every cache whose name is in the keep list is kept with its content.
\<close>

theorem activate_evicts_stale_generations:
  "(k \<notin> set keep \<longrightarrow>
      k \<notin> set (caches_keys (activate_with keep st)) \<and> cache_of (activate_with keep st) k = None)
   \<and> (k \<in> set keep \<longrightarrow> cache_of (activate_with keep st) k = cache_of st k)"
  by (auto simp: activate_with_filter caches_keys_def cache_of_def map_of_filter_keys)

theorem activate_evicts_stale_generations_witness:
  "''v-old'' \<notin> set cacheKeepList
   \<and> ''v-old'' \<notin> set (caches_keys (activate_with cacheKeepList sample_storage))
   \<and> cache_of (activate_with cacheKeepList sample_storage) ''v-old'' = None
   \<and> cacheName \<in> set cacheKeepList
   \<and> cache_of (activate_with cacheKeepList sample_storage) cacheName =
        Some [(GET defaultResponseURL, offline_page)]"
  using activate_evicts_stale_generations [of "''v-old''" cacheKeepList sample_storage]
    activate_evicts_stale_generations [of cacheName cacheKeepList sample_storage]
  by (simp add: cacheKeepList_def cacheName_def sample_storage_def cache_of_def)

subsection \<open>Cache and storage operations\<close>

lemma GET_inject: "GET u = GET v \<longleftrightarrow> u = v"
  by (simp add: GET_def)

lemma GET_method: "req_method (GET u) = ''GET''"
  by (simp add: GET_def)

lemma map_of_cache_put:
  "map_of (cache_put c q r) req = (if req = q then Some r else map_of c req)"
  by (induction c) (auto simp: cache_put_def)

lemma cache_match_put_other:
  "req \<noteq> q \<Longrightarrow> cache_match (cache_put c q r) req = cache_match c req"
  by (simp add: cache_match_def map_of_cache_put)

lemma cache_match_put_same:
  "req_method q = ''GET'' \<Longrightarrow> cache_match (cache_put c q r) q = Some r"
  by (simp add: cache_match_def map_of_cache_put)

lemma cache_match_GET: "cache_match c req = Some r \<Longrightarrow> req_method req = ''GET''"
  by (simp add: cache_match_def split: if_splits)

lemma caches_match_GET: "caches_match st req = Some r \<Longrightarrow> req_method req = ''GET''"
  by (induction st) (auto split: option.splits dest: cache_match_GET)

lemma caches_match_open: "caches_match (caches_open name st) req = caches_match st req"
  by (induction st)
     (auto simp: caches_open_def caches_has_def caches_keys_def cache_match_def
        split: option.splits)

lemma caches_match_put_other:
  "req \<noteq> q \<Longrightarrow> caches_match (storage_put name q r st) req = caches_match st req"
  by (induction st) (auto simp: storage_put_def cache_match_put_other split: option.splits)

lemma caches_match_put_miss:
  "caches_match st q = None \<Longrightarrow> caches_has st name \<Longrightarrow> req_method q = ''GET'' \<Longrightarrow>
   caches_match (storage_put name q r st) q = Some r"
  by (induction st)
     (auto simp: storage_put_def cache_match_put_same caches_has_def caches_keys_def
        split: option.splits)

lemma caches_has_open: "caches_has (caches_open name st) name"
  by (auto simp: caches_open_def caches_has_def caches_keys_def)

lemma caches_open_existing: "caches_has st name \<Longrightarrow> caches_open name st = st"
  by (simp add: caches_open_def)

lemma caches_keys_put: "caches_keys (storage_put name q r st) = caches_keys st"
  by (induction st) (auto simp: storage_put_def caches_keys_def)

lemma cache_of_put:
  "cache_of (storage_put name q r st) name = map_option (\<lambda>c. cache_put c q r) (cache_of st name)"
  by (induction st) (auto simp: storage_put_def cache_of_def)

lemma cache_of_open:
  "cache_of (caches_open name st) name = Some (case cache_of st name of None \<Rightarrow> [] | Some c \<Rightarrow> c)"
proof (cases "caches_has st name")
  case True
  then have "map_of st name \<noteq> None"
    by (simp add: caches_has_def caches_keys_def map_of_eq_None_iff)
  with True show ?thesis
    by (auto simp: caches_open_def cache_of_def)
next
  case False
  then have "map_of st name = None"
    by (simp add: caches_has_def caches_keys_def map_of_eq_None_iff)
  with False show ?thesis
    by (simp add: caches_open_def cache_of_def map_add_def)
qed

lemma only_generation_match:
  "set (caches_keys st) \<subseteq> {name} \<Longrightarrow> cache_of st name = Some c \<Longrightarrow>
   cache_match c req = Some r \<Longrightarrow> caches_match st req = Some r"
  by (cases st) (auto simp: caches_keys_def cache_of_def)

subsection \<open>The install listener's fetches and writes\<close>

lemma fetch_all_Some:
  "fetch_all net urls = Some rs \<Longrightarrow>
   rs = map (\<lambda>u. the (net (GET u))) urls
   \<and> (\<forall>u\<in>set urls. \<exists>r. net (GET u) = Some r \<and> addAll_admits r)"
proof (induction urls arbitrary: rs)
  case Nil
  then show ?case by simp
next
  case (Cons a urls)
  from Cons.prems obtain r rs' where a: "net (GET a) = Some r" "addAll_admits r"
    and rest: "fetch_all net urls = Some rs'" and rs: "rs = r # rs'"
    by (auto split: option.splits if_splits)
  from Cons.IH [OF rest] a rs show ?case by simp
qed

lemma fetch_all_None_iff:
  "fetch_all net urls = None \<longleftrightarrow>
   (\<exists>u\<in>set urls. case net (GET u) of None \<Rightarrow> True | Some r \<Rightarrow> \<not> addAll_admits r)"
proof (induction urls)
  case Nil
  show ?case by simp
next
  case (Cons a urls)
  show ?case
  proof (cases "net (GET a)")
    case None
    then show ?thesis by simp
  next
    case (Some r)
    with Cons.IH show ?thesis
      by (cases "addAll_admits r"; cases "fetch_all net urls") simp_all
  qed
qed

lemma zip_map_self: "zip urls (map f urls) = map (\<lambda>u. (u, f u)) urls"
  by (induction urls) auto

lemma fold_put_cache:
  "cache_of st name = Some c \<Longrightarrow>
   \<exists>c'. cache_of (fold (\<lambda>e s. storage_put name (GET (fst e)) (snd e) s)
                    (map (\<lambda>u. (u, f u)) urls) st) name = Some c'
      \<and> (\<forall>u. cache_match c' (GET u) =
              (if u \<in> set urls then Some (f u) else cache_match c (GET u)))"
proof (induction urls arbitrary: st c)
  case Nil
  then show ?case by simp
next
  case (Cons a urls)
  have "cache_of (storage_put name (GET a) (f a) st) name = Some (cache_put c (GET a) (f a))"
    using Cons.prems by (simp add: cache_of_put)
  from Cons.IH [OF this] show ?case
    by (auto simp: cache_match_def map_of_cache_put GET_inject GET_method)
qed

lemma cache_addAll_None_iff:
  "cache_addAll net name urls st = None \<longleftrightarrow>
   (\<exists>u\<in>set urls. \<not> precached_ok net u) \<or> \<not> distinct urls"
proof (cases "list_all url_scheme_ok urls \<and> distinct urls")
  case True
  then have "(\<exists>u\<in>set urls. \<not> precached_ok net u) \<longleftrightarrow> fetch_all net urls = None"
    by (auto simp: fetch_all_None_iff precached_ok_def list_all_iff split: option.splits)
  with True show ?thesis
    by (auto simp: cache_addAll_def split: option.splits)
next
  case False
  then show ?thesis
    by (auto simp: cache_addAll_def precached_ok_def list_all_iff)
qed

lemma install_with_ok:
  assumes "install_with urls net st = (InstallOk, st')" and "u \<in> set urls"
  shows "\<exists>c r. cache_of st' cacheName = Some c \<and> cache_match c (GET u) = Some r
           \<and> net (GET u) = Some r"
proof -
  from assms(1) obtain rs where rs: "fetch_all net urls = Some rs"
    and st': "st' = fold (\<lambda>e s. storage_put cacheName (GET (fst e)) (snd e) s) (zip urls rs)
                     (caches_open cacheName st)"
    by (auto simp: install_with_def cache_addAll_def Let_def split: option.splits if_splits)
  from fetch_all_Some [OF rs] have rs_eq: "rs = map (\<lambda>u. the (net (GET u))) urls"
    and fetched: "\<forall>u\<in>set urls. \<exists>r. net (GET u) = Some r \<and> addAll_admits r" by simp_all
  from fold_put_cache [OF cache_of_open, of cacheName "\<lambda>u. the (net (GET u))" urls st]
  obtain c' where "cache_of st' cacheName = Some c'"
    and "\<forall>u. cache_match c' (GET u) = (if u \<in> set urls then Some (the (net (GET u))) else
            cache_match (case cache_of st cacheName of None \<Rightarrow> [] | Some c \<Rightarrow> c) (GET u))"
    unfolding st' rs_eq zip_map_self by blast
  with assms(2) fetched show ?thesis by auto
qed

lemma install_with_failed_iff:
  "install_with urls net st = (InstallFailed, caches_open cacheName st) \<longleftrightarrow>
   (\<exists>u\<in>set urls. \<not> precached_ok net u) \<or> \<not> distinct urls"
  using cache_addAll_None_iff [of net cacheName urls "caches_open cacheName st"]
  by (auto simp: install_with_def Let_def split: option.splits)

lemma install_with_ok_iff:
  "fst (install_with urls net st) = InstallOk \<longleftrightarrow>
   (\<forall>u\<in>set urls. precached_ok net u) \<and> distinct urls"
  using cache_addAll_None_iff [of net cacheName urls "caches_open cacheName st"]
  by (auto simp: install_with_def Let_def split: option.splits)

subsection \<open>The storages the fetch listener sees\<close>

lemma caches_keys_activate: "set (caches_keys (activate st)) \<subseteq> {cacheName}"
  by (auto simp: activate_def activate_with_filter caches_keys_def cacheKeepList_def)

lemma cache_of_activate: "cache_of (activate st) cacheName = cache_of st cacheName"
proof -
  have "cacheName \<in> set cacheKeepList" by (simp add: cacheKeepList_def)
  then show ?thesis
    unfolding activate_def activate_with_filter cache_of_def map_of_filter_keys by simp
qed

lemma filter_name_head:
  "caches_has st name \<Longrightarrow> \<exists>c rest. filter (\<lambda>e. fst e = name) st = (name, c) # rest"
proof (induction st)
  case Nil
  then show ?case by (simp add: caches_has_def caches_keys_def)
next
  case (Cons e st)
  then show ?case
    by (cases e) (auto simp: caches_has_def caches_keys_def)
qed

lemma caches_has_fold_put:
  "caches_has (fold (\<lambda>e s. storage_put name (GET (fst e)) (snd e) s) es st) name' =
   caches_has st name'"
  by (induction es arbitrary: st) (simp_all add: caches_has_def caches_keys_put)

lemma install_ok_has_generation:
  assumes "install net st0 = (InstallOk, st1)"
  shows "caches_has st1 cacheName"
proof -
  from assms obtain es where
    "st1 = fold (\<lambda>e s. storage_put cacheName (GET (fst e)) (snd e) s) es
             (caches_open cacheName st0)"
    by (auto simp: install_def install_with_def cache_addAll_def Let_def
        split: option.splits if_splits)
  then show ?thesis by (simp add: caches_has_fold_put caches_has_open)
qed

lemma activate_keeps_current:
  "activate st = filter (\<lambda>e. fst e = cacheName) st"
  by (simp add: activate_def activate_with_filter cacheKeepList_def)

lemma settle_put_head:
  "st = (cacheName, c) # rest \<Longrightarrow> \<exists>c' rest'. settle_put p st = (cacheName, c') # rest'"
  by (cases p)
     (simp_all add: settle_put_def Let_def caches_open_def caches_has_def caches_keys_def
        storage_put_def)

lemma serving_oldest: "serving st \<Longrightarrow> \<exists>c rest. st = (cacheName, c) # rest"
proof (induction rule: serving.induct)
  case (activated net st0 st1)
  from filter_name_head [OF install_ok_has_generation [OF activated]]
  show ?case by (simp add: activate_keeps_current)
next
  case (intercepted st net req)
  then obtain c rest where "st = (cacheName, c) # rest" by blast
  from settle_put_head [OF this] show ?case
    by (simp add: intercept_def Let_def)
next
  case (generation_added st name c)
  then show ?case by auto
qed

lemma oldest_generation_match:
  "st = (name, c0) # rest \<Longrightarrow> cache_of st name = Some c \<Longrightarrow>
   cache_match c req = Some r \<Longrightarrow> caches_match st req = Some r"
  by (auto simp: cache_of_def)

text \<open>A hit is answered from the cache in every storage, whatever the network is.\<close>

lemma fetch_hit:
  "caches_match st req = Some r \<Longrightarrow>
   intercept net st req =
     (\<lparr>outcome = Responded r, network_requests = [], pending_put = None\<rparr>, st)"
  by (simp add: intercept_def fetch_listener_def Let_def settle_put_def)

text \<open>A miss that the network answers, whatever the platform then does with the write.\<close>

lemma fetch_miss_answered:
  "caches_match st req = None \<Longrightarrow> net req = Some r \<Longrightarrow>
   intercept net st req =
     (\<lparr>outcome = Responded r, network_requests = [req], pending_put = Some (req, r)\<rparr>,
      settle_put (Some (req, r)) st)"
  by (simp add: intercept_def fetch_listener_def Let_def)

lemma settle_admitted:
  "put_admits req r \<Longrightarrow>
   settle_put (Some (req, r)) st = storage_put cacheName req r (caches_open cacheName st)"
  by (simp add: settle_put_def Let_def)

lemma settle_refused:
  "\<not> put_admits req r \<Longrightarrow> settle_put (Some (req, r)) st = caches_open cacheName st"
  by (simp add: settle_put_def Let_def)

lemma settle_match_new:
  "caches_match st req = None \<Longrightarrow> put_admits req r \<Longrightarrow>
   caches_match (settle_put (Some (req, r)) st) req = Some r"
  by (simp add: settle_admitted caches_match_put_miss caches_match_open caches_has_open
      put_admits_def)

lemma settle_cache_of:
  "put_admits req r \<Longrightarrow>
   \<exists>c. cache_of (settle_put (Some (req, r)) st) cacheName = Some c \<and> cache_match c req = Some r"
  by (simp add: settle_admitted cache_of_put cache_of_open cache_match_put_same put_admits_def)

lemma settle_match_other:
  "req \<noteq> q \<Longrightarrow> caches_match (settle_put (Some (q, r)) st) req = caches_match st req"
  by (simp add: settle_put_def Let_def caches_match_put_other caches_match_open)

lemma intercept_keeps_hit:
  assumes "caches_match st req = Some r"
  shows "caches_match (snd (intercept net st q)) req = Some r"
proof (cases "caches_match st q")
  case (Some a)
  with assms show ?thesis by (simp add: fetch_hit)
next
  case None
  with assms have ne: "req \<noteq> q" by auto
  show ?thesis
  proof (cases "net q")
    case (Some r')
    with None assms ne show ?thesis
      by (simp add: fetch_miss_answered settle_match_other)
  next
    case no: None
    with None assms show ?thesis
      by (simp add: intercept_def fetch_listener_def Let_def settle_put_def split: option.splits)
  qed
qed

lemma intercepts_keep_hit:
  "caches_match st req = Some r \<Longrightarrow> caches_match (intercepts es st) req = Some r"
  by (induction es arbitrary: st) (auto simp: intercept_keeps_hit)

subsection \<open>The sample worker\<close>

lemma default_url_ok: "url_scheme_ok defaultResponseURL"
  by (simp add: url_scheme_ok_def defaultResponseURL_def)

lemma sample_precached_ok: "precached_ok sample_network defaultResponseURL"
  by (simp add: precached_ok_def default_url_ok sample_network_def addAll_admits_def
      offline_page_def)

lemma sample_install:
  "install_with preCacheURLs sample_network [] = (InstallOk, served_storage)"
  by (simp add: install_with_def cache_addAll_def caches_open_def caches_has_def caches_keys_def
      preCacheURLs_def default_url_ok sample_network_def addAll_admits_def offline_page_def
      served_storage_def storage_put_def cache_put_def)

lemma sample_activate: "activate served_storage = served_storage"
  by (simp add: activate_def activate_with_def caches_keys_def served_storage_def
      cacheKeepList_def caches_delete_def)

lemma sample_serving: "serving served_storage"
proof -
  have "install sample_network [] = (InstallOk, served_storage)"
    by (simp add: install_def sample_install)
  from serving.activated [OF this] show ?thesis
    by (simp add: sample_activate)
qed

lemma served_has_generation: "caches_has served_storage cacheName"
  by (simp add: caches_has_def caches_keys_def served_storage_def)

lemma served_fallback: "caches_match served_storage (GET defaultResponseURL) = Some offline_page"
  by (simp add: served_storage_def cache_match_def GET_def)

subsection \<open>The install phase\<close>

text \<open>
  C1. When the install phase succeeds, every URL of the precache list is in the cache store
  of the current generation with the response fetched at install time, and once the worker
  is activated an interception of that URL with the network disabled answers with that
  response and makes no network request. When one of the URLs is not fetched successfully
  (its fetch fails, or the platform refuses the URL or the answer), or a URL is listed
  twice, the install phase fails, and the storage is the one left by opening the cache:
  none of the URLs has been stored. In every other case the install phase succeeds.
\<close>

theorem install_precaches_all_or_fails:
  "(install_with urls net st = (InstallOk, st') \<longrightarrow>
      (\<forall>u\<in>set urls. \<exists>c r. cache_of st' cacheName = Some c \<and> cache_match c (GET u) = Some r
          \<and> net (GET u) = Some r
          \<and> fst (intercept (\<lambda>q. None) (activate st') (GET u)) =
              \<lparr>outcome = Responded r, network_requests = [], pending_put = None\<rparr>))
   \<and> ((\<exists>u\<in>set urls. net (GET u) = None \<or> \<not> precached_ok net u) \<or> \<not> distinct urls \<longrightarrow>
        install_with urls net st = (InstallFailed, caches_open cacheName st))
   \<and> ((\<forall>u\<in>set urls. precached_ok net u) \<and> distinct urls \<longrightarrow>
        fst (install_with urls net st) = InstallOk)"
proof (intro conjI impI ballI)
  fix u
  assume ok: "install_with urls net st = (InstallOk, st')" and u: "u \<in> set urls"
  from install_with_ok [OF ok u] obtain c r where c: "cache_of st' cacheName = Some c"
    and r: "cache_match c (GET u) = Some r" and n: "net (GET u) = Some r" by blast
  from c have "cache_of (activate st') cacheName = Some c" by (simp add: cache_of_activate)
  from only_generation_match [OF caches_keys_activate this r]
  have "fst (intercept (\<lambda>q. None) (activate st') (GET u)) =
          \<lparr>outcome = Responded r, network_requests = [], pending_put = None\<rparr>"
    by (simp add: fetch_hit)
  with c r n show "\<exists>c r. cache_of st' cacheName = Some c \<and> cache_match c (GET u) = Some r
          \<and> net (GET u) = Some r
          \<and> fst (intercept (\<lambda>q. None) (activate st') (GET u)) =
              \<lparr>outcome = Responded r, network_requests = [], pending_put = None\<rparr>"
    by blast
next
  assume "(\<exists>u\<in>set urls. net (GET u) = None \<or> \<not> precached_ok net u) \<or> \<not> distinct urls"
  moreover have "\<And>u. net (GET u) = None \<Longrightarrow> \<not> precached_ok net u"
    by (simp add: precached_ok_def)
  ultimately have "(\<exists>u\<in>set urls. \<not> precached_ok net u) \<or> \<not> distinct urls"
    by blast
  then show "install_with urls net st = (InstallFailed, caches_open cacheName st)"
    by (simp add: install_with_failed_iff)
next
  assume "(\<forall>u\<in>set urls. precached_ok net u) \<and> distinct urls"
  then show "fst (install_with urls net st) = InstallOk"
    by (simp add: install_with_ok_iff)
qed

theorem install_precaches_all_or_fails_witness:
  "install_with preCacheURLs sample_network [] = (InstallOk, served_storage)
   \<and> cache_of served_storage cacheName = Some [(GET defaultResponseURL, offline_page)]
   \<and> fst (intercept (\<lambda>q. None) (activate served_storage) (GET defaultResponseURL)) =
        \<lparr>outcome = Responded offline_page, network_requests = [], pending_put = None\<rparr>
   \<and> install_with preCacheURLs no_network [] = (InstallFailed, [(cacheName, [])])
   \<and> install_with preCacheURLs (\<lambda>q. Some not_found_page) [] = (InstallFailed, [(cacheName, [])])
   \<and> install_with [defaultResponseURL, defaultResponseURL] sample_network [] =
        (InstallFailed, [(cacheName, [])])"
proof -
  note t = install_precaches_all_or_fails
  have u: "defaultResponseURL \<in> set preCacheURLs" by (simp add: preCacheURLs_def)
  have o: "caches_open cacheName [] = [(cacheName, [])]"
    by (simp add: caches_open_def caches_has_def caches_keys_def)
  have c: "cache_of served_storage cacheName = Some [(GET defaultResponseURL, offline_page)]"
    by (simp add: served_storage_def cache_of_def)
  from t [where urls = preCacheURLs and net = sample_network and st = "[]"
            and st' = served_storage] sample_install u c
  have 1: "fst (intercept (\<lambda>q. None) (activate served_storage) (GET defaultResponseURL)) =
        \<lparr>outcome = Responded offline_page, network_requests = [], pending_put = None\<rparr>"
    by (auto simp: sample_network_def)
  have "no_network (GET defaultResponseURL) = None" by (simp add: no_network_def)
  with t [where urls = preCacheURLs and net = no_network and st = "[]"] u o
  have 2: "install_with preCacheURLs no_network [] = (InstallFailed, [(cacheName, [])])"
    by auto
  have "\<not> precached_ok (\<lambda>q. Some not_found_page) defaultResponseURL"
    by (simp add: precached_ok_def addAll_admits_def not_found_page_def)
  with t [where urls = preCacheURLs and net = "\<lambda>q. Some not_found_page" and st = "[]"] u o
  have 3: "install_with preCacheURLs (\<lambda>q. Some not_found_page) [] =
             (InstallFailed, [(cacheName, [])])"
    by auto
  from t [where urls = "[defaultResponseURL, defaultResponseURL]" and net = sample_network
            and st = "[]"] o
  have 4: "install_with [defaultResponseURL, defaultResponseURL] sample_network [] =
        (InstallFailed, [(cacheName, [])])"
    by simp
  from sample_install c 1 2 3 4 show ?thesis by simp
qed

subsection \<open>Cache first\<close>

text \<open>
  C3. In every storage the fetch listener can see, a request that is in the cache store of
  the current generation is answered with the response stored there, whatever the network
  would answer: no network request is made, nothing is written, and the stored response
  is not compared with anything.
\<close>

theorem fetch_cache_first:
  assumes "serving st" and "cache_of st cacheName = Some c" and "cache_match c req = Some r"
  shows "intercept net st req =
           (\<lparr>outcome = Responded r, network_requests = [], pending_put = None\<rparr>, st)"
proof -
  from serving_oldest [OF assms(1)] obtain c0 rest where "st = (cacheName, c0) # rest"
    by blast
  from oldest_generation_match [OF this assms(2,3)] show ?thesis
    by (rule fetch_hit)
qed

theorem fetch_cache_first_witness:
  "serving (served_storage @ [(''v0.0.1'', [(GET defaultResponseURL, not_found_page)])])
   \<and> cache_of (served_storage @ [(''v0.0.1'', [(GET defaultResponseURL, not_found_page)])])
        cacheName = Some [(GET defaultResponseURL, offline_page)]
   \<and> cache_match [(GET defaultResponseURL, offline_page)] (GET defaultResponseURL) =
        Some offline_page
   \<and> intercept sample_network
        (served_storage @ [(''v0.0.1'', [(GET defaultResponseURL, not_found_page)])])
        (GET defaultResponseURL) =
        (\<lparr>outcome = Responded offline_page, network_requests = [], pending_put = None\<rparr>,
         served_storage @ [(''v0.0.1'', [(GET defaultResponseURL, not_found_page)])])"
proof -
  let ?st = "served_storage @ [(''v0.0.1'', [(GET defaultResponseURL, not_found_page)])]"
  have "\<not> caches_has served_storage ''v0.0.1''"
    by (simp add: caches_has_def caches_keys_def served_storage_def cacheName_def)
  with sample_serving have s: "serving ?st" by (rule serving.generation_added)
  have c: "cache_of ?st cacheName = Some [(GET defaultResponseURL, offline_page)]"
    by (simp add: served_storage_def cache_of_def)
  have m: "cache_match [(GET defaultResponseURL, offline_page)] (GET defaultResponseURL) =
             Some offline_page"
    by (simp add: cache_match_def GET_def)
  from s c m fetch_cache_first [OF s c m, of sample_network] show ?thesis by simp
qed

subsection \<open>Write-through on a miss\<close>

lemma post_miss: "caches_match served_storage post_request = None"
  by (simp add: served_storage_def cache_match_def post_request_def)

lemma post_answered: "sample_network post_request = Some created_answer"
  by (simp add: sample_network_def post_request_def GET_def)

lemma post_refused: "\<not> put_admits post_request created_answer"
  by (simp add: put_admits_def post_request_def)

text \<open>
  C4, as the claim states it, fails for a request that is not a GET request. The sample
  POST request is in no cache and the network answers it: the caller gets the answer, but
  the platform refuses the write, the storage is as before, and the same request
  intercepted with the network disabled gets the offline fallback, not the answer.
\<close>

theorem post_request_not_written:
  "caches_match served_storage post_request = None
   \<and> sample_network post_request = Some created_answer
   \<and> intercept sample_network served_storage post_request =
        (\<lparr>outcome = Responded created_answer, network_requests = [post_request],
          pending_put = Some (post_request, created_answer)\<rparr>, served_storage)
   \<and> intercept no_network served_storage post_request =
        (\<lparr>outcome = Responded offline_page, network_requests = [post_request],
          pending_put = None\<rparr>, served_storage)
   \<and> offline_page \<noteq> created_answer"
proof -
  have "intercept sample_network served_storage post_request =
        (\<lparr>outcome = Responded created_answer, network_requests = [post_request],
          pending_put = Some (post_request, created_answer)\<rparr>, served_storage)"
    by (simp add: fetch_miss_answered [of served_storage post_request sample_network created_answer,
          OF post_miss post_answered] settle_refused post_refused
        caches_open_existing served_has_generation)
  moreover have "intercept no_network served_storage post_request =
        (\<lparr>outcome = Responded offline_page, network_requests = [post_request],
          pending_put = None\<rparr>, served_storage)"
    by (simp add: intercept_def fetch_listener_def Let_def settle_put_def post_miss
        no_network_def served_fallback)
  moreover have "offline_page \<noteq> created_answer"
    by (simp add: offline_page_def created_answer_def)
  ultimately show ?thesis using post_miss post_answered by simp
qed

text \<open>
  C4, amended. A request that no cache holds and that the network answers: the caller gets
  the network's response and one network request is made. When the platform admits the
  write (a GET request over http or https, a response that is neither partial nor varies
  on everything), a copy is written into the cache store of the current generation under
  the request, and the same request intercepted again with the network disabled is
  answered with that response from the cache. When the platform refuses the write,
  nothing is stored: the storage is the one left by opening the cache.
\<close>

theorem fetch_miss_writes_through:
  assumes "caches_match st req = None" and "net req = Some r"
  shows "\<exists>st'. intercept net st req =
            (\<lparr>outcome = Responded r, network_requests = [req], pending_put = Some (req, r)\<rparr>, st')
          \<and> (put_admits req r \<longrightarrow>
                (\<exists>c. cache_of st' cacheName = Some c \<and> cache_match c req = Some r)
                \<and> intercept (\<lambda>q. None) st' req =
                    (\<lparr>outcome = Responded r, network_requests = [], pending_put = None\<rparr>, st'))
          \<and> (\<not> put_admits req r \<longrightarrow> st' = caches_open cacheName st)"
proof -
  let ?st' = "settle_put (Some (req, r)) st"
  note 1 = fetch_miss_answered [of st req net r, OF assms]
  have 2: "put_admits req r \<Longrightarrow> intercept (\<lambda>q. None) ?st' req =
      (\<lparr>outcome = Responded r, network_requests = [], pending_put = None\<rparr>, ?st')"
    by (rule fetch_hit) (rule settle_match_new [OF assms(1)])
  from 1 2 settle_cache_of [of req r st] settle_refused [of req r st] show ?thesis
    by blast
qed

theorem fetch_miss_writes_through_witness:
  "caches_match served_storage (GET ''/missing.css'') = None
   \<and> sample_network (GET ''/missing.css'') = Some not_found_page
   \<and> put_admits (GET ''/missing.css'') not_found_page
   \<and> intercept sample_network served_storage (GET ''/missing.css'') =
        (\<lparr>outcome = Responded not_found_page, network_requests = [GET ''/missing.css''],
          pending_put = Some (GET ''/missing.css'', not_found_page)\<rparr>,
         [(cacheName, [(GET defaultResponseURL, offline_page),
                       (GET ''/missing.css'', not_found_page)])])
   \<and> intercept (\<lambda>q. None)
         [(cacheName, [(GET defaultResponseURL, offline_page),
                       (GET ''/missing.css'', not_found_page)])]
         (GET ''/missing.css'') =
        (\<lparr>outcome = Responded not_found_page, network_requests = [], pending_put = None\<rparr>,
         [(cacheName, [(GET defaultResponseURL, offline_page),
                       (GET ''/missing.css'', not_found_page)])])
   \<and> \<not> put_admits post_request created_answer
   \<and> snd (intercept sample_network served_storage post_request) =
        caches_open cacheName served_storage"
proof -
  have a: "caches_match served_storage (GET ''/missing.css'') = None"
    by (simp add: served_storage_def cache_match_def defaultResponseURL_def GET_def)
  have b: "sample_network (GET ''/missing.css'') = Some not_found_page"
    by (simp add: sample_network_def defaultResponseURL_def GET_def)
  have p: "put_admits (GET ''/missing.css'') not_found_page"
    by (simp add: put_admits_def GET_def url_scheme_ok_def not_found_page_def)
  have c: "snd (intercept sample_network served_storage (GET ''/missing.css'')) =
      [(cacheName, [(GET defaultResponseURL, offline_page),
                    (GET ''/missing.css'', not_found_page)])]"
    by (simp add: fetch_miss_answered [of served_storage "GET ''/missing.css''" sample_network
          not_found_page, OF a b] settle_admitted [OF p] caches_open_existing
        served_has_generation)
       (simp add: storage_put_def cache_put_def served_storage_def defaultResponseURL_def
          GET_def)
  from fetch_miss_writes_through
         [where st = served_storage and req = "GET ''/missing.css''" and net = sample_network
            and r = not_found_page] c a b p
  have 1: "intercept sample_network served_storage (GET ''/missing.css'') =
        (\<lparr>outcome = Responded not_found_page, network_requests = [GET ''/missing.css''],
          pending_put = Some (GET ''/missing.css'', not_found_page)\<rparr>,
         [(cacheName, [(GET defaultResponseURL, offline_page),
                       (GET ''/missing.css'', not_found_page)])])
     \<and> intercept (\<lambda>q. None)
         [(cacheName, [(GET defaultResponseURL, offline_page),
                       (GET ''/missing.css'', not_found_page)])]
         (GET ''/missing.css'') =
        (\<lparr>outcome = Responded not_found_page, network_requests = [], pending_put = None\<rparr>,
         [(cacheName, [(GET defaultResponseURL, offline_page),
                       (GET ''/missing.css'', not_found_page)])])"
    by auto
  from fetch_miss_writes_through
         [where st = served_storage and req = post_request and net = sample_network
            and r = created_answer] post_miss post_answered post_refused
  have 2: "snd (intercept sample_network served_storage post_request) =
        caches_open cacheName served_storage"
    by auto
  from a b p 1 2 post_refused show ?thesis by simp
qed

subsection \<open>The offline fallback\<close>

text \<open>
  C5. A request that no cache holds and whose network request fails is answered with the
  offline fallback resource when a cache holds it; when none does, the caller gets a
  failed fetch. Nothing is written in either case.
\<close>

theorem fetch_offline_fallback:
  assumes "caches_match st req = None" and "net req = None"
  shows "intercept net st req =
           (\<lparr>outcome = (case caches_match st (GET defaultResponseURL) of
                          Some fallback \<Rightarrow> Responded fallback
                        | None \<Rightarrow> FetchFailed),
             network_requests = [req], pending_put = None\<rparr>, st)"
  using assms
  by (simp add: intercept_def fetch_listener_def Let_def settle_put_def split: option.splits)

theorem fetch_offline_fallback_witness:
  "caches_match served_storage (GET ''/app.js'') = None \<and> no_network (GET ''/app.js'') = None
   \<and> intercept no_network served_storage (GET ''/app.js'') =
        (\<lparr>outcome = Responded offline_page, network_requests = [GET ''/app.js''],
          pending_put = None\<rparr>, served_storage)
   \<and> caches_match [] (GET ''/app.js'') = None
   \<and> intercept no_network [] (GET ''/app.js'') =
        (\<lparr>outcome = FetchFailed, network_requests = [GET ''/app.js''], pending_put = None\<rparr>, [])"
proof -
  have a: "caches_match served_storage (GET ''/app.js'') = None"
    by (simp add: served_storage_def cache_match_def defaultResponseURL_def GET_def)
  have b: "no_network (GET ''/app.js'') = None" by (simp add: no_network_def)
  have e: "caches_match [] (GET ''/app.js'') = None" by simp
  from fetch_offline_fallback
         [where st = served_storage and req = "GET ''/app.js''" and net = no_network]
       fetch_offline_fallback
         [where st = "[]" and req = "GET ''/app.js''" and net = no_network]
       a b e served_fallback
  show ?thesis by simp
qed

subsection \<open>No status check before caching\<close>

text \<open>
  C10, as the claim states it, fails for a partial response. The sample video request is
  in no cache and the network answers it with status 206: the caller gets the answer, but
  the platform refuses the write, the storage is as before, and the next interception of
  the request, with the network disabled, gets the offline fallback after a network
  request.
\<close>

theorem partial_response_not_cached:
  "caches_match served_storage (GET ''/video.mp4'') = None
   \<and> sample_network (GET ''/video.mp4'') = Some partial_content
   \<and> status partial_content = 206
   \<and> intercept sample_network served_storage (GET ''/video.mp4'') =
        (\<lparr>outcome = Responded partial_content, network_requests = [GET ''/video.mp4''],
          pending_put = Some (GET ''/video.mp4'', partial_content)\<rparr>, served_storage)
   \<and> intercept no_network served_storage (GET ''/video.mp4'') =
        (\<lparr>outcome = Responded offline_page, network_requests = [GET ''/video.mp4''],
          pending_put = None\<rparr>, served_storage)"
proof -
  have a: "caches_match served_storage (GET ''/video.mp4'') = None"
    by (simp add: served_storage_def cache_match_def defaultResponseURL_def GET_def)
  have b: "sample_network (GET ''/video.mp4'') = Some partial_content"
    by (simp add: sample_network_def defaultResponseURL_def GET_def)
  have p: "\<not> put_admits (GET ''/video.mp4'') partial_content"
    by (simp add: put_admits_def partial_content_def)
  have "intercept sample_network served_storage (GET ''/video.mp4'') =
        (\<lparr>outcome = Responded partial_content, network_requests = [GET ''/video.mp4''],
          pending_put = Some (GET ''/video.mp4'', partial_content)\<rparr>, served_storage)"
    by (simp add: fetch_miss_answered [of served_storage "GET ''/video.mp4''" sample_network
          partial_content, OF a b] settle_refused p caches_open_existing served_has_generation)
  moreover have "intercept no_network served_storage (GET ''/video.mp4'') =
        (\<lparr>outcome = Responded offline_page, network_requests = [GET ''/video.mp4''],
          pending_put = None\<rparr>, served_storage)"
    by (simp add: intercept_def fetch_listener_def Let_def settle_put_def a no_network_def
        served_fallback)
  ultimately show ?thesis using a b by (simp add: partial_content_def)
qed

text \<open>
  C10, amended. The listener never looks at the status. On a miss of a GET request over
  http or https, the response the network gives is written into the cache whatever its
  status is, 404 and 500 included, unless it is a partial response (206) or varies on
  everything, which the platform refuses to store. From then on every interception of
  that request, after any number of other interceptions and whatever the network says by
  then, is answered with that response from the cache without a network request.
\<close>

theorem fetch_caches_any_status:
  assumes "caches_match st req = None" and "net req = Some r"
    and "req_method req = ''GET''" and "url_scheme_ok (req_url req)"
    and "status r \<noteq> 206" and "\<not> vary_star r"
  shows "intercept net' (intercepts es (snd (intercept net st req))) req =
           (\<lparr>outcome = Responded r, network_requests = [], pending_put = None\<rparr>,
            intercepts es (snd (intercept net st req)))"
proof -
  from assms(3-6) have p: "put_admits req r" by (simp add: put_admits_def)
  from fetch_miss_answered [of st req net r, OF assms(1,2)]
  have "snd (intercept net st req) = settle_put (Some (req, r)) st" by simp
  with settle_match_new [OF assms(1) p]
  have "caches_match (snd (intercept net st req)) req = Some r" by simp
  from intercepts_keep_hit [OF this, of es] show ?thesis
    by (rule fetch_hit)
qed

theorem fetch_caches_any_status_witness:
  "caches_match served_storage (GET ''/missing.css'') = None
   \<and> sample_network (GET ''/missing.css'') = Some not_found_page
   \<and> status not_found_page = 404
   \<and> outcome (fst (intercept sample_network
        (intercepts [(no_network, GET ''/app.js''), (sample_network, GET defaultResponseURL)]
           (snd (intercept sample_network served_storage (GET ''/missing.css''))))
        (GET ''/missing.css''))) = Responded not_found_page
   \<and> caches_match served_storage (GET ''/error'') = None
   \<and> outcome (fst (intercept no_network
        (intercepts [(no_network, GET ''/app.js'')]
           (snd (intercept (\<lambda>q. Some \<lparr>status = 500, vary_star = False, body = ''failed''\<rparr>)
                  served_storage (GET ''/error''))))
        (GET ''/error''))) =
       Responded \<lparr>status = 500, vary_star = False, body = ''failed''\<rparr>"
proof -
  note t = fetch_caches_any_status
  have a: "caches_match served_storage (GET ''/missing.css'') = None"
    by (simp add: served_storage_def cache_match_def defaultResponseURL_def GET_def)
  have b: "sample_network (GET ''/missing.css'') = Some not_found_page"
    by (simp add: sample_network_def defaultResponseURL_def GET_def)
  have a': "caches_match served_storage (GET ''/error'') = None"
    by (simp add: served_storage_def cache_match_def defaultResponseURL_def GET_def)
  have g: "req_method (GET ''/missing.css'') = ''GET''" "req_method (GET ''/error'') = ''GET''"
    "url_scheme_ok (req_url (GET ''/missing.css''))" "url_scheme_ok (req_url (GET ''/error''))"
    by (simp_all add: GET_def url_scheme_ok_def)
  from t [where st = served_storage and req = "GET ''/missing.css''" and net = sample_network
            and r = not_found_page and net' = sample_network
            and es = "[(no_network, GET ''/app.js''), (sample_network, GET defaultResponseURL)]"]
       a b g
  have 1: "outcome (fst (intercept sample_network
        (intercepts [(no_network, GET ''/app.js''), (sample_network, GET defaultResponseURL)]
           (snd (intercept sample_network served_storage (GET ''/missing.css''))))
        (GET ''/missing.css''))) = Responded not_found_page"
    by (simp add: not_found_page_def del: intercepts.simps)
  from t [where st = served_storage and req = "GET ''/error''"
            and net = "\<lambda>q. Some \<lparr>status = 500, vary_star = False, body = ''failed''\<rparr>"
            and r = "\<lparr>status = 500, vary_star = False, body = ''failed''\<rparr>"
            and net' = no_network and es = "[(no_network, GET ''/app.js'')]"]
       a' g
  have 2: "outcome (fst (intercept no_network
        (intercepts [(no_network, GET ''/app.js'')]
           (snd (intercept (\<lambda>q. Some \<lparr>status = 500, vary_star = False, body = ''failed''\<rparr>)
                  served_storage (GET ''/error''))))
        (GET ''/error''))) =
       Responded \<lparr>status = 500, vary_star = False, body = ''failed''\<rparr>"
    by (simp del: intercepts.simps)
  from a b a' 1 2 show ?thesis by (simp add: not_found_page_def)
qed

section \<open>Properties of the page side\<close>

subsection \<open>The update handshake\<close>

text \<open>The message the coordinator posts is the one the worker's listener acts on.\<close>

lemma skipWaiting_message_accepted:
  "message_listener (Some [(''action'', ''skipWaiting'')]) = Inr True"
  by (simp add: message_listener_def)






subsection \<open>The controller-change guard\<close>

lemma dispatches_refreshing:
  "refreshing pm \<Longrightarrow> controllerChange_dispatches ds pm = (pm, [])"
  by (induction ds) (simp_all add: controllerChange_listener_def Let_def)

lemma dispatches_calls:
  "\<not> refreshing pm \<Longrightarrow>
   snd (controllerChange_dispatches ds pm) =
     map (\<lambda>d. HostControllerChange (fst d))
       (takeWhile (\<lambda>d. snd d \<noteq> None) ds @ take 1 (dropWhile (\<lambda>d. snd d \<noteq> None) ds))"
proof (induction ds)
  case Nil
  show ?case by simp
next
  case (Cons d ds)
  show ?case
  proof (cases "snd d")
    case None
    with Cons.prems show ?thesis
      by (simp add: controllerChange_listener_def Let_def dispatches_refreshing)
  next
    case (Some err)
    with Cons show ?thesis
      by (simp add: controllerChange_listener_def Let_def)
  qed
qed

lemma PWAManager_new_fresh:
  "PWAManager_new env arg = Inr pm \<Longrightarrow> \<not> refreshing pm \<and> deferredPrompt pm = None"
  by (auto simp: PWAManager_new_def Let_def split: option.splits if_splits)

lemma sample_new: "PWAManager_new sample_env (Some sample_options) = Inr sample_manager"
  by (simp add: PWAManager_new_def sample_env_def sample_options_def sample_manager_def
      button_default_def instanceof_HTMLElement_def element_of_def)

text \<open>
  C7, as the claim states it, fails for a host callback that throws: the listener sets the
  flag only after the call has returned. With the signal dispatched twice and a callback
  that throws both times, the callback is called twice and the flag is still unset.
\<close>

theorem throwing_callback_called_twice:
  "PWAManager_new sample_env (Some sample_options) = Inr sample_manager
   \<and> controllerChange_dispatches [(7, Some (Error ''host'')), (8, Some (Error ''host''))]
       sample_manager =
       (sample_manager, [HostControllerChange 7, HostControllerChange 8])
   \<and> \<not> refreshing sample_manager"
  by (simp add: sample_new) (simp add: controllerChange_listener_def sample_manager_def)

text \<open>
  C7, amended. Whatever the host's callback does, it is called for the dispatches up to the
  first one at which it returns, and never after: once a call has returned, every later
  dispatch is dropped by the flag, and when the flag is set nothing is called. So a
  callback that returns is called at most once, however often the signal is dispatched;
  for a manager as the constructor leaves it, the first dispatch calls it.
\<close>

theorem controllerChange_at_most_once:
  "(refreshing pm \<longrightarrow> snd (controllerChange_dispatches ds pm) = [])
   \<and> (\<not> refreshing pm \<longrightarrow>
        snd (controllerChange_dispatches ds pm) =
          map (\<lambda>d. HostControllerChange (fst d))
            (takeWhile (\<lambda>d. snd d \<noteq> None) ds @ take 1 (dropWhile (\<lambda>d. snd d \<noteq> None) ds)))
   \<and> ((\<forall>d\<in>set ds. snd d = None) \<longrightarrow> length (snd (controllerChange_dispatches ds pm)) \<le> 1)
   \<and> (PWAManager_new env arg = Inr pm \<longrightarrow>
        snd (controllerChange_dispatches ((e, None) # ds) pm) = [HostControllerChange e])"
proof (intro conjI impI)
  assume "refreshing pm"
  then show "snd (controllerChange_dispatches ds pm) = []"
    by (simp add: dispatches_refreshing)
next
  assume "\<not> refreshing pm"
  then show "snd (controllerChange_dispatches ds pm) =
          map (\<lambda>d. HostControllerChange (fst d))
            (takeWhile (\<lambda>d. snd d \<noteq> None) ds @ take 1 (dropWhile (\<lambda>d. snd d \<noteq> None) ds))"
    by (rule dispatches_calls)
next
  assume all: "\<forall>d\<in>set ds. snd d = None"
  then have "takeWhile (\<lambda>d. snd d \<noteq> None) ds = []" "dropWhile (\<lambda>d. snd d \<noteq> None) ds = ds"
    by (cases ds; simp)+
  then show "length (snd (controllerChange_dispatches ds pm)) \<le> 1"
    by (cases "refreshing pm") (simp_all add: dispatches_refreshing dispatches_calls)
next
  assume "PWAManager_new env arg = Inr pm"
  then have "\<not> refreshing pm" by (simp add: PWAManager_new_fresh)
  then show "snd (controllerChange_dispatches ((e, None) # ds) pm) = [HostControllerChange e]"
    by (simp add: dispatches_calls del: controllerChange_dispatches.simps)
qed

theorem controllerChange_at_most_once_witness:
  "PWAManager_new sample_env (Some sample_options) = Inr sample_manager
   \<and> snd (controllerChange_dispatches [(7, None), (8, None), (9, None)] sample_manager) =
       [HostControllerChange 7]
   \<and> length (snd (controllerChange_dispatches [(7, None), (8, None), (9, None)] sample_manager))
       \<le> 1
   \<and> snd (controllerChange_dispatches
            [(7, Some (Error ''host'')), (8, None), (9, None), (10, Some (Error ''host''))]
            sample_manager) =
       [HostControllerChange 7, HostControllerChange 8]
   \<and> snd (controllerChange_dispatches [(7, None), (8, None)]
            (sample_manager\<lparr>refreshing := True\<rparr>)) = []"
proof -
  note t = controllerChange_at_most_once
  have f: "\<not> refreshing sample_manager" by (simp add: sample_manager_def)
  from t [of sample_manager "[(8, None), (9, None)]" sample_env "Some sample_options" 7] sample_new
  have 1: "snd (controllerChange_dispatches [(7, None), (8, None), (9, None)] sample_manager) =
       [HostControllerChange 7]"
    by (simp del: controllerChange_dispatches.simps)
  from t [of sample_manager "[(7, None), (8, None), (9, None)]" sample_env
            "Some sample_options" 7]
  have 2: "length (snd (controllerChange_dispatches [(7, None), (8, None), (9, None)]
             sample_manager)) \<le> 1"
    by (simp del: controllerChange_dispatches.simps)
  from t [of sample_manager
            "[(7, Some (Error ''host'')), (8, None), (9, None), (10, Some (Error ''host''))]"
            sample_env "Some sample_options" 7] f
  have 3: "snd (controllerChange_dispatches
            [(7, Some (Error ''host'')), (8, None), (9, None), (10, Some (Error ''host''))]
            sample_manager) =
       [HostControllerChange 7, HostControllerChange 8]"
    by (simp del: controllerChange_dispatches.simps)
  from t [of "sample_manager\<lparr>refreshing := True\<rparr>" "[(7, None), (8, None)]" sample_env
            "Some sample_options" 7]
  have 4: "snd (controllerChange_dispatches [(7, None), (8, None)]
            (sample_manager\<lparr>refreshing := True\<rparr>)) = []"
    by (simp del: controllerChange_dispatches.simps)
  from sample_new 1 2 3 4 show ?thesis by simp
qed

subsection \<open>Construction and initialization\<close>

lemma rejected_button_iff:
  "rejected_button v \<longleftrightarrow> button_default v \<noteq> Null \<and> \<not> instanceof_HTMLElement (button_default v)"
  by (cases v) (simp_all add: rejected_button_def button_default_def instanceof_HTMLElement_def)

text \<open>
  C8, as the claim states it, names two conditions as the only ones that abort the
  initialization. With the capability present and no button involved, construction
  without an options object throws a \<^verbatim>\<open>TypeError\<close>, and nothing is registered.
\<close>

theorem construction_without_options:
  "serviceWorker_in_navigator sample_env
   \<and> PWAManager_new sample_env None =
       Inl (TypeError ''Cannot destructure property serviceWorkerPath of undefined'')
   \<and> PWAManager_start sample_env None =
       (Some (TypeError ''Cannot destructure property serviceWorkerPath of undefined''), [])"
  by (simp add: PWAManager_start_def PWAManager_new_def sample_env_def)

text \<open>
  C8, amended. Construction throws a \<^verbatim>\<open>TypeError\<close> when it is called without an options
  object; with one, it throws the error that names the binding when the install button, or
  else the update button, is neither \<^verbatim>\<open>null\<close> nor an element, and the error that names the
  missing capability when \<^verbatim>\<open>serviceWorker\<close> is not in the navigator. Whenever one of these
  holds, construction followed by \<^verbatim>\<open>init()\<close> ends with that error and has had no effect:
  nothing is registered. In every other case neither the constructor nor \<^verbatim>\<open>init()\<close> throws,
  and the registration starts.
\<close>

theorem construction_fails_fast:
  "(PWAManager_new env None =
      Inl (TypeError ''Cannot destructure property serviceWorkerPath of undefined''))
   \<and> (rejected_button (opt_installButton opts) \<longrightarrow>
      PWAManager_new env (Some opts) = Inl (Error ''installButton must be an HTMLElement''))
   \<and> (\<not> rejected_button (opt_installButton opts) \<and> rejected_button (opt_updateButton opts) \<longrightarrow>
      PWAManager_new env (Some opts) = Inl (Error ''updateButton must be an HTMLElement''))
   \<and> (\<not> rejected_button (opt_installButton opts) \<and> \<not> rejected_button (opt_updateButton opts)
        \<and> \<not> serviceWorker_in_navigator env \<longrightarrow>
      PWAManager_new env (Some opts) =
        Inl (Error ''ServiceWorker is not supported in this browser''))
   \<and> (arg = None
        \<or> arg = Some opts
           \<and> (rejected_button (opt_installButton opts) \<or> rejected_button (opt_updateButton opts)
               \<or> \<not> serviceWorker_in_navigator env) \<longrightarrow>
      (\<exists>e. PWAManager_new env arg = Inl e \<and> PWAManager_start env arg = (Some e, [])))
   \<and> (arg = Some opts
        \<and> \<not> rejected_button (opt_installButton opts) \<and> \<not> rejected_button (opt_updateButton opts)
        \<and> serviceWorker_in_navigator env \<longrightarrow>
      (\<exists>pm effs. PWAManager_new env arg = Inr pm \<and> PWAManager_start env arg = (None, effs)
         \<and> Register (serviceWorkerPath pm) ''/'' \<in> set effs))"
  by (auto simp: rejected_button_iff PWAManager_new_def PWAManager_start_def PWAManager_init_def
      swm_init_def ServiceWorkerManager_new_def Let_def)

theorem construction_fails_fast_witness:
  "PWAManager_new sample_env
     (Some (sample_options\<lparr>opt_installButton := NotElement ''#install''\<rparr>)) =
     Inl (Error ''installButton must be an HTMLElement'')
   \<and> PWAManager_start sample_env
       (Some (sample_options\<lparr>opt_installButton := NotElement ''#install''\<rparr>)) =
     (Some (Error ''installButton must be an HTMLElement''), [])
   \<and> PWAManager_new sample_env (Some (sample_options\<lparr>opt_updateButton := NotElement ''42''\<rparr>)) =
     Inl (Error ''updateButton must be an HTMLElement'')
   \<and> PWAManager_new (sample_env\<lparr>serviceWorker_in_navigator := False\<rparr>) (Some sample_options) =
     Inl (Error ''ServiceWorker is not supported in this browser'')
   \<and> PWAManager_start (sample_env\<lparr>serviceWorker_in_navigator := False\<rparr>) (Some sample_options) =
     (Some (Error ''ServiceWorker is not supported in this browser''), [])
   \<and> PWAManager_start sample_env None =
     (Some (TypeError ''Cannot destructure property serviceWorkerPath of undefined''), [])
   \<and> PWAManager_new sample_env (Some sample_options) = Inr sample_manager
   \<and> PWAManager_start sample_env (Some sample_options) =
     (None, [Register ''./sw.js'' ''/'', AddEventListener Window ''load'',
             AddEventListener ServiceWorkerContainer ''controllerChange'',
             AddEventListener Window ''updatefound''])"
proof -
  note t = construction_fails_fast
  have r1: "rejected_button (NotElement ''#install'')" and r2: "rejected_button (NotElement ''42'')"
    and r3: "\<not> rejected_button (HTMLElement 1)" and r4: "\<not> rejected_button (HTMLElement 2)"
    by (simp_all add: rejected_button_def)
  let ?o1 = "sample_options\<lparr>opt_installButton := NotElement ''#install''\<rparr>"
  from t [of sample_env ?o1 "Some ?o1"] r1
  have a: "PWAManager_new sample_env (Some ?o1) =
     Inl (Error ''installButton must be an HTMLElement'')
   \<and> PWAManager_start sample_env (Some ?o1) =
     (Some (Error ''installButton must be an HTMLElement''), [])"
    by (auto simp: sample_options_def)
  let ?o2 = "sample_options\<lparr>opt_updateButton := NotElement ''42''\<rparr>"
  from t [of sample_env ?o2 "Some ?o2"] r2 r3
  have b: "PWAManager_new sample_env (Some ?o2) =
     Inl (Error ''updateButton must be an HTMLElement'')"
    by (simp add: sample_options_def)
  let ?e = "sample_env\<lparr>serviceWorker_in_navigator := False\<rparr>"
  from t [of ?e sample_options "Some sample_options"] r3 r4
  have c: "PWAManager_new ?e (Some sample_options) =
     Inl (Error ''ServiceWorker is not supported in this browser'')
   \<and> PWAManager_start ?e (Some sample_options) =
     (Some (Error ''ServiceWorker is not supported in this browser''), [])"
    by (auto simp: sample_options_def)
  from t [of sample_env sample_options None]
  have n: "PWAManager_start sample_env None =
     (Some (TypeError ''Cannot destructure property serviceWorkerPath of undefined''), [])"
    by auto
  have d: "PWAManager_start sample_env (Some sample_options) =
     (None, [Register ''./sw.js'' ''/'', AddEventListener Window ''load'',
             AddEventListener ServiceWorkerContainer ''controllerChange'',
             AddEventListener Window ''updatefound''])"
    by (simp add: PWAManager_start_def sample_new)
       (simp add: PWAManager_init_def swm_init_def ServiceWorkerManager_new_def sample_env_def
          sample_manager_def)
  from a b c n d sample_new show ?thesis by simp
qed

subsection \<open>The load listener\<close>

text \<open>
  Later, at the \<^verbatim>\<open>load\<close> event, the listener that \<^verbatim>\<open>init()\<close> registered runs. For a manager
  with an update button it stops with a \<^verbatim>\<open>ReferenceError\<close> at the registration for that
  button, unless the page has a global variable \<^verbatim>\<open>updateButton\<close>: the listeners of the update
  button and of \<^verbatim>\<open>appInstalled\<close> are then never registered. The error is raised inside the
  event listener, after construction and \<^verbatim>\<open>init()\<close> have returned to the host.
\<close>

lemma load_listener_with_update_button:
  "updateButton pm = Some u \<Longrightarrow> global_updateButton env = None \<Longrightarrow>
   fst (load_listener env pm) = Some (ReferenceError ''updateButton is not defined'')
   \<and> AddEventListener Window ''appInstalled'' \<notin> set (snd (load_listener env pm))"
  by (auto simp: load_listener_def Let_def split: option.splits)

lemma load_listener_stops_at_update_button:
  "PWAManager_new sample_env (Some sample_options) = Inr sample_manager
   \<and> PWAManager_init sample_env sample_manager =
       Inr (sample_manager\<lparr>swManager := Some (ServiceWorkerManager_new ''./sw.js'' [])\<rparr>,
            [Register ''./sw.js'' ''/'', AddEventListener Window ''load'',
             AddEventListener ServiceWorkerContainer ''controllerChange'',
             AddEventListener Window ''updatefound''])
   \<and> load_listener sample_env
        (sample_manager\<lparr>swManager := Some (ServiceWorkerManager_new ''./sw.js'' [])\<rparr>) =
       (Some (ReferenceError ''updateButton is not defined''),
        [AddEventListener Window ''beforeInstallPrompt'',
         AddEventListener (Element 1) ''click''])"
  by (simp add: sample_new)
     (simp add: PWAManager_init_def load_listener_def swm_init_def sample_env_def
        sample_manager_def ServiceWorkerManager_new_def)

subsection \<open>The install prompt\<close>

lemma installButton_click_without_prompt:
  "deferredPrompt pm = None \<Longrightarrow>
   installButton_click choice pm =
     (Inl (TypeError ''Cannot read properties of null (reading prompt)''), pm)"
  by (simp add: installButton_click_def)

text \<open>
  C9. The claim is that a second trigger of the install flow, with no availability signal
  in between, is a no-op or a handled failure. After one availability signal the first
  click prompts and clears the stored prompt; the second click raises a \<^verbatim>\<open>TypeError\<close> that
  nothing catches, and leaves the manager as it was.
\<close>

theorem install_flow_second_trigger_raises:
  "installButton_click ''accepted'' (fst (beforeInstallPrompt_listener 5 None sample_manager)) =
     (Inr [Prompt 5, ConsoleLog ''User response to the install prompt: accepted''],
      sample_manager)
   \<and> installButton_click ''accepted''
        (snd (installButton_click ''accepted''
               (fst (beforeInstallPrompt_listener 5 None sample_manager)))) =
     (Inl (TypeError ''Cannot read properties of null (reading prompt)''), sample_manager)"
  by (simp add: installButton_click_def beforeInstallPrompt_listener_def sample_manager_def)

end
